theory Spec2Isabelle
  imports Complex_Main "HOL-Library.Sublist" "HOL-Library.List_Lexorder" "HOL-Library.Char_ord"
begin

section \<open>JavaScript numbers and field values\<close>

text \<open>
  A JavaScript number is a finite number, one of the two infinities, or NaN. Finite
  numbers are modelled by the rationals they denote: the rounding of doubles, overflow
  and the sign of zero are not modelled (\<open>Fin 0\<close> stands for \<open>+0\<close>). Every comparison
  with NaN is false, as in JavaScript.
\<close>

datatype jsnum = is_Fin: Fin (rat_of: rat) | PInf | NInf | NaN

fun js_gt :: "jsnum \<Rightarrow> jsnum \<Rightarrow> bool" where
  "js_gt NaN y = False"
| "js_gt x NaN = False"
| "js_gt (Fin a) (Fin b) = (b < a)"
| "js_gt PInf PInf = False"
| "js_gt PInf y = True"
| "js_gt NInf y = False"
| "js_gt (Fin a) PInf = False"
| "js_gt (Fin a) NInf = True"

definition js_lt :: "jsnum \<Rightarrow> jsnum \<Rightarrow> bool" where
  "js_lt x y = js_gt y x"

definition js_sgn :: "jsnum \<Rightarrow> rat" where
  "js_sgn x = (case x of Fin a \<Rightarrow> sgn a | PInf \<Rightarrow> 1 | NInf \<Rightarrow> - 1 | NaN \<Rightarrow> 0)"

definition inf_of :: "rat \<Rightarrow> jsnum" where
  "inf_of s = (if 0 < s then PInf else if s < 0 then NInf else NaN)"

fun js_mul :: "jsnum \<Rightarrow> jsnum \<Rightarrow> jsnum" where
  "js_mul NaN y = NaN"
| "js_mul x NaN = NaN"
| "js_mul (Fin a) (Fin b) = Fin (a * b)"
| "js_mul x y = inf_of (js_sgn x * js_sgn y)"

fun js_add :: "jsnum \<Rightarrow> jsnum \<Rightarrow> jsnum" where
  "js_add NaN y = NaN"
| "js_add x NaN = NaN"
| "js_add (Fin a) (Fin b) = Fin (a + b)"
| "js_add PInf NInf = NaN"
| "js_add NInf PInf = NaN"
| "js_add (Fin a) y = y"
| "js_add x y = x"

fun js_neg :: "jsnum \<Rightarrow> jsnum" where
  "js_neg (Fin a) = Fin (- a)"
| "js_neg PInf = NInf"
| "js_neg NInf = PInf"
| "js_neg NaN = NaN"

definition js_sub :: "jsnum \<Rightarrow> jsnum \<Rightarrow> jsnum" where
  "js_sub x y = js_add x (js_neg y)"

text \<open>Division: a non-zero number over zero is an infinity, zero over zero is NaN.\<close>

fun js_div :: "jsnum \<Rightarrow> jsnum \<Rightarrow> jsnum" where
  "js_div NaN y = NaN"
| "js_div x NaN = NaN"
| "js_div (Fin a) (Fin b) = (if b = 0 then inf_of (sgn a) else Fin (a / b))"
| "js_div (Fin a) y = Fin 0"
| "js_div x (Fin b) = inf_of (js_sgn x * (if b < 0 then - 1 else 1))"
| "js_div x y = NaN"

text \<open>
  A field of a signal object. \<open>NA\<close> is the string \<open>'N/A'\<close>, the sentinel of a missing
  value. \<open>Val x\<close> is any other value, which reads as the number \<open>x\<close> where the code
  reads it: a number \<open>x\<close>, a decimal string of \<open>x\<close>, or (with \<open>x = NaN\<close>) an absent
  field (\<open>undefined\<close>) or a string that is no number. \<open>parseFloat\<close> and the implicit
  conversion of a comparison (\<open>toNumber\<close>) both read \<open>'N/A'\<close> as NaN.
\<close>

datatype field = NA | Val jsnum

fun parseFloat :: "field \<Rightarrow> jsnum" where
  "parseFloat NA = NaN"
| "parseFloat (Val x) = x"

fun toNumber :: "field \<Rightarrow> jsnum" where
  "toNumber NA = NaN"
| "toNumber (Val x) = x"

section \<open>The signals and the recommendation\<close>

record indicators =
  sma20 :: field
  trend :: "string option"

record technical =
  price :: field
  change :: field
  changePercent :: field
  volume :: string
  indicators :: indicators
  message :: string

record fundamental =
  marketCap :: field
  peRatio :: field
  dividendYield :: field
  eps :: field
  bookValue :: field
  message :: string

record headline =
  title :: string
  sentiment :: int
  url :: string

record sentiment =
  score :: field
  message :: string
  headlines :: "headline list option"

text \<open>
  The action strings of the source carry a coloured-circle emoji before the words
  (\<open>Strong Buy\<close>, \<open>Buy\<close>, \<open>Hold\<close>, \<open>Sell\<close>, \<open>Strong Sell\<close>); the five strings are
  the five constructors here.
\<close>

datatype action = StrongBuy | Buy | Hold | Sell | StrongSell

record recommendation =
  recommendation :: string
  action :: action
  confidence :: string
  score :: int
  riskLevel :: string
  reasons :: "string list"
  riskFactors :: "string list"
  message :: string

section \<open>generateRecommendation\<close>

text \<open>
  The three local variables \<open>score\<close>, \<open>reasons\<close> and \<open>riskFactors\<close> of
  \<open>generateRecommendation\<close>, threaded through its four scoring blocks.
\<close>

record acc =
  acc_score :: int
  acc_reasons :: "string list"
  acc_riskFactors :: "string list"

definition acc0 :: acc where
  "acc0 = \<lparr>acc_score = 0, acc_reasons = [], acc_riskFactors = []\<rparr>"

text \<open>\<open>bump n rs ks a\<close>: \<open>score += n\<close>, then push the reasons \<open>rs\<close> and the risk factors \<open>ks\<close>.\<close>

definition bump :: "int \<Rightarrow> string list \<Rightarrow> string list \<Rightarrow> acc \<Rightarrow> acc" where
  "bump n rs ks a =
     \<lparr>acc_score = acc_score a + n, acc_reasons = acc_reasons a @ rs,
      acc_riskFactors = acc_riskFactors a @ ks\<rparr>"

definition momentum_scoring :: "jsnum \<Rightarrow> acc \<Rightarrow> acc" where
  "momentum_scoring cp a =
     (if js_gt cp (Fin 3) then bump 2 [''Strong upward momentum (+3%)''] [] a
      else if js_gt cp (Fin 0) then bump 1 [''Positive price movement''] [] a
      else if js_lt cp (Fin (- 3)) then
        bump (- 2) [''Significant price decline (-3%)''] [''Recent sharp decline''] a
      else if js_lt cp (Fin 0) then bump (- 1) [''Negative price movement''] [] a
      else a)"

definition trend_scoring :: "jsnum \<Rightarrow> jsnum \<Rightarrow> acc \<Rightarrow> acc" where
  "trend_scoring currentPrice sma a =
     (if js_gt currentPrice (js_mul sma (Fin (102 / 100))) then
        bump 1 [''Price above 20-day average''] [] a
      else if js_lt currentPrice (js_mul sma (Fin (98 / 100))) then
        bump (- 1) [''Price below 20-day average''] [''Below short-term trend''] a
      else a)"

definition technical_scoring :: "technical \<Rightarrow> acc \<Rightarrow> acc" where
  "technical_scoring t a =
     (if price t \<noteq> NA then
        trend_scoring (parseFloat (price t)) (parseFloat (sma20 (indicators t)))
          (momentum_scoring (parseFloat (changePercent t)) a)
      else a)"

definition pe_scoring :: "fundamental \<Rightarrow> acc \<Rightarrow> acc" where
  "pe_scoring f a =
     (if peRatio f \<noteq> NA then
        (let pe = parseFloat (peRatio f) in
         if js_gt pe (Fin 0) then
           (if js_lt pe (Fin 15) then bump 2 [''Attractive P/E ratio (value play)''] [] a
            else if js_lt pe (Fin 25) then bump 1 [''Reasonable P/E ratio''] [] a
            else if js_gt pe (Fin 40) then
              bump (- 1) [''High P/E ratio (expensive)''] [''High valuation risk''] a
            else a)
         else a)
      else a)"

definition dividend_scoring :: "fundamental \<Rightarrow> acc \<Rightarrow> acc" where
  "dividend_scoring f a =
     (if dividendYield f \<noteq> NA then
        (if js_gt (parseFloat (dividendYield f)) (Fin 3) then
           bump 1 [''Good dividend yield''] [] a
         else a)
      else a)"

definition sentiment_scoring :: "sentiment \<Rightarrow> acc \<Rightarrow> acc" where
  "sentiment_scoring s a =
     (if js_gt (toNumber (sentiment.score s)) (Fin (1 / 2)) then
        bump 1 [''Positive market sentiment''] [] a
      else if js_lt (toNumber (sentiment.score s)) (Fin (- (1 / 2))) then
        bump (- 1) [''Negative market sentiment''] [''Poor news sentiment''] a
      else a)"

text \<open>The state after the four blocks, before the recommendation is built from it.\<close>

definition accumulate :: "technical \<Rightarrow> fundamental \<Rightarrow> sentiment \<Rightarrow> acc" where
  "accumulate t f s =
     sentiment_scoring s (dividend_scoring f (pe_scoring f (technical_scoring t acc0)))"

definition generateRecommendationMessage :: "string \<Rightarrow> string \<Rightarrow> string \<Rightarrow> string" where
  "generateRecommendationMessage rec conf risk =
     (if rec = ''BUY'' then
        conf @ '' confidence buy recommendation. '' @
          (if risk = ''Low'' then ''Low risk investment with good upside potential.''
           else if risk = ''Medium'' then ''Moderate risk - consider position sizing carefully.''
           else ''Higher risk - suitable for aggressive investors only.'')
      else if rec = ''HOLD'' then
        ''Hold current position. '' @ ''Mixed signals suggest waiting for clearer direction.''
      else
        conf @ '' confidence sell recommendation. '' @
          (if risk = ''High'' then ''High risk of further decline - consider exit strategy.''
           else ''Consider taking profits or reducing exposure.''))"

text \<open>The threshold cascade on the total score: recommendation, action, confidence.\<close>

definition classify :: "int \<Rightarrow> string \<times> action \<times> string" where
  "classify sc =
     (if 3 \<le> sc then (''BUY'', StrongBuy, ''High'')
      else if 1 \<le> sc then (''BUY'', Buy, ''Medium'')
      else if - 1 \<le> sc then (''HOLD'', Hold, ''Medium'')
      else if - 3 \<le> sc then (''SELL'', Sell, ''Medium'')
      else (''SELL'', StrongSell, ''High''))"

definition assess_risk :: "string list \<Rightarrow> string" where
  "assess_risk rf =
     (if 3 \<le> length rf then ''High'' else if 1 \<le> length rf then ''Medium'' else ''Low'')"

definition generateRecommendation ::
  "technical \<Rightarrow> fundamental \<Rightarrow> sentiment \<Rightarrow> recommendation" where
  "generateRecommendation t f s =
     (let a = accumulate t f s;
          (rec, act, conf) = classify (acc_score a);
          risk = assess_risk (acc_riskFactors a)
      in \<lparr>recommendation = rec, action = act, confidence = conf, score = acc_score a,
          riskLevel = risk, reasons = take 4 (acc_reasons a),
          riskFactors = take 3 (acc_riskFactors a),
          message = generateRecommendationMessage rec conf risk\<rparr>)"

section \<open>Sentinels and sample signals\<close>

text \<open>
  The object that \<open>getTechnicalAnalysis\<close> returns when it has no data:
  \<open>{price: 'N/A', change: 'N/A', volume: 'N/A', indicators: {}, message}\<close>; the fields
  \<open>changePercent\<close> and \<open>indicators.sma20\<close> are absent.
\<close>

definition technical_NA :: "string \<Rightarrow> technical" where
  "technical_NA msg =
     \<lparr>price = NA, change = NA, changePercent = Val NaN, volume = ''N/A'',
      indicators = \<lparr>sma20 = Val NaN, trend = None\<rparr>, message = msg\<rparr>"

text \<open>
  The object that \<open>getFundamentalAnalysis\<close> returns when it has no data:
  \<open>{marketCap: 'N/A', peRatio: 'N/A', dividendYield: 'N/A', message}\<close>.
\<close>

definition fundamental_NA :: "string \<Rightarrow> fundamental" where
  "fundamental_NA msg =
     \<lparr>marketCap = NA, peRatio = NA, dividendYield = NA, eps = Val NaN, bookValue = Val NaN,
      message = msg\<rparr>"

text \<open>
  Sample signals for the worked examples: a technical signal with the given price,
  percent change and 20-day average, a fundamental signal with the given P/E ratio and
  dividend yield, a sentiment signal with the given score.
\<close>

definition tech :: "rat \<Rightarrow> rat \<Rightarrow> rat \<Rightarrow> technical" where
  "tech p cp sma =
     \<lparr>price = Val (Fin p), change = Val NaN, changePercent = Val (Fin cp), volume = ''0'',
      indicators = \<lparr>sma20 = Val (Fin sma), trend = None\<rparr>, message = []\<rparr>"

definition fund :: "field \<Rightarrow> field \<Rightarrow> fundamental" where
  "fund pe dy =
     \<lparr>marketCap = Val NaN, peRatio = pe, dividendYield = dy, eps = Val NaN,
      bookValue = Val NaN, message = []\<rparr>"

definition sent :: "field \<Rightarrow> sentiment" where
  "sent sc = \<lparr>sentiment.score = sc, message = [], headlines = None\<rparr>"

section \<open>Sentiment derivation\<close>

record article =
  title :: "string option"
  description :: "string option"
  url :: string
  publishedAt :: string
  source :: string

record newsData =
  articles :: "article list option"
  summary :: string

definition positiveWords :: "string list" where
  "positiveWords = [''growth'', ''profit'', ''increase'', ''rise'', ''gain'', ''strong'',
     ''beat'', ''exceed'', ''positive'', ''up'']"

definition negativeWords :: "string list" where
  "negativeWords = [''loss'', ''decline'', ''fall'', ''drop'', ''weak'', ''miss'',
     ''negative'', ''down'', ''concern'', ''risk'']"

text \<open>
  Strings are byte strings: \<open>toLowerCase\<close> and \<open>toUpperCase\<close> change the ASCII letters
  and leave every other character as it is.
\<close>

definition lower_char :: "char \<Rightarrow> char" where
  "lower_char c =
     (let n = (of_char c :: nat) in if 65 \<le> n \<and> n \<le> 90 then char_of (n + 32) else c)"

definition toLowerCase :: "string \<Rightarrow> string" where
  "toLowerCase s = map lower_char s"

definition upper_char :: "char \<Rightarrow> char" where
  "upper_char c =
     (let n = (of_char c :: nat) in if 97 \<le> n \<and> n \<le> 122 then char_of (n - 32) else c)"

definition toUpperCase :: "string \<Rightarrow> string" where
  "toUpperCase s = map upper_char s"

text \<open>\<open>str_includes s w\<close> is \<open>s.includes(w)\<close>: \<open>w\<close> starts at some position of \<open>s\<close>.\<close>

fun str_includes :: "string \<Rightarrow> string \<Rightarrow> bool" where
  "str_includes [] w = (w = [])"
| "str_includes (c # cs) w = (prefix w (c # cs) \<or> str_includes cs w)"

text \<open>
  The score of one headline: the body of the callback of \<open>articles.forEach\<close>, for a
  title that is present.
\<close>

definition headline_score :: "string \<Rightarrow> int" where
  "headline_score t =
     (let title = toLowerCase t;
          score = fold (\<lambda>word sc. if str_includes title word then sc + 1 else sc) positiveWords 0
      in fold (\<lambda>word sc. if str_includes title word then sc - 1 else sc) negativeWords score)"

text \<open>One step of \<open>articles.forEach\<close> on the pair \<open>(totalScore, headlines)\<close>.\<close>

definition score_article :: "article \<Rightarrow> int \<times> headline list \<Rightarrow> int \<times> headline list" where
  "score_article a st =
     (case article.title a of
        Some (c # cs) \<Rightarrow>
          (fst st + headline_score (c # cs),
           snd st @ [\<lparr>headline.title = c # cs, sentiment = headline_score (c # cs), url = article.url a\<rparr>])
      | _ \<Rightarrow> st)"

text \<open>\<open>Math.round\<close>: to the nearest integer, a tie to the larger one.\<close>

definition js_round :: "rat \<Rightarrow> int" where
  "js_round x = \<lfloor>x + 1 / 2\<rfloor>"

definition sentiment_label :: "rat \<Rightarrow> string" where
  "sentiment_label avgScore =
     (if avgScore > 1 / 2 then ''Very Positive sentiment in recent news''
      else if avgScore > 0 then ''Positive sentiment in recent news''
      else if avgScore = 0 then ''Neutral sentiment in recent news''
      else if avgScore > - (1 / 2) then ''Negative sentiment in recent news''
      else ''Very Negative sentiment in recent news'')"

definition getSentimentFromNews :: "newsData \<Rightarrow> sentiment" where
  "getSentimentFromNews nd =
     (case articles nd of
        None \<Rightarrow>
          \<lparr>sentiment.score = Val (Fin 0),
           message = ''No news articles available for sentiment analysis'', headlines = None\<rparr>
      | Some as \<Rightarrow>
          if length as = 0 then
            \<lparr>sentiment.score = Val (Fin 0),
             message = ''No news articles available for sentiment analysis'', headlines = None\<rparr>
          else
            (let (totalScore, hs) = fold score_article as (0, []);
                 avgScore = (if length as > 0 then of_int totalScore / of_nat (length as) else 0)
             in \<lparr>sentiment.score = Val (Fin (of_int (js_round (avgScore * 100)) / 100)),
                 message = sentiment_label avgScore, headlines = Some (take 5 hs)\<rparr>))"

section \<open>Errors and awaited results\<close>

text \<open>
  A thrown value with its \<open>message\<close>. The messages of the type and reference errors are
  the engine's wording (here V8's).
\<close>

datatype error = Error string | TypeError string | ReferenceError string

fun error_msg :: "error \<Rightarrow> string" where
  "error_msg (Error m) = m"
| "error_msg (TypeError m) = m"
| "error_msg (ReferenceError m) = m"

text \<open>
  What an \<open>await\<close> gives: the promise rejects (the network fails, the body is no JSON)
  or resolves to a value.
\<close>

datatype 'a awaited = Rejected error | Resolved 'a

text \<open>A string that may be absent is truthy when it is present and not empty.\<close>

fun truthy_str :: "string option \<Rightarrow> bool" where
  "truthy_str None = False"
| "truthy_str (Some s) = (s \<noteq> [])"

fun show_nat :: "nat \<Rightarrow> string" where
  "show_nat n =
     (if n < 10 then [char_of (48 + n)] else show_nat (n div 10) @ [char_of (48 + n mod 10)])"

declare show_nat.simps [simp del]

section \<open>Technical signal derivation (daily time series)\<close>

text \<open>
  One day of the series: the entry \<open>'4. close'\<close> as \<open>parseFloat\<close> reads it, and the
  entry \<open>'5. volume'\<close>.
\<close>

record daily =
  close :: field
  day_volume :: string

text \<open>
  The provider's answer: its \<open>'Error Message'\<close> and its \<open>'Time Series (Daily)'\<close>, an
  object from dates to days. The object is an association list; a JavaScript object
  holds each key once, so the lists meant are those with distinct dates.
\<close>

record daily_response =
  ErrorMessage :: "string option"
  TimeSeriesDaily :: "(string \<times> daily) list option"

text \<open>
  \<open>x.toFixed(2)\<close>, as the number its string denotes: the nearest multiple of 1/100 of
  the absolute value, a tie to the larger one, with the sign of \<open>x\<close>; from \<open>10^21\<close> on
  the number itself; \<open>NaN\<close> and the infinities print as themselves.
\<close>

fun toFixed2 :: "jsnum \<Rightarrow> jsnum" where
  "toFixed2 (Fin r) =
     (if 10 ^ 21 \<le> \<bar>r\<bar> then Fin r else Fin (sgn r * of_int \<lfloor>\<bar>r\<bar> * 100 + 1 / 2\<rfloor> / 100))"
| "toFixed2 x = x"

definition interpretTechnicalAnalysis :: "jsnum \<Rightarrow> jsnum \<Rightarrow> jsnum \<Rightarrow> string" where
  "interpretTechnicalAnalysis changePercent_v currentPrice sma =
     (if js_gt changePercent_v (Fin 2) then ''Strong upward momentum today. ''
      else if js_gt changePercent_v (Fin 0) then ''Positive movement today. ''
      else if js_lt changePercent_v (Fin (- 2)) then ''Significant decline today. ''
      else if js_lt changePercent_v (Fin 0) then ''Slight downward pressure. ''
      else ''Flat trading today. '') @
     (if js_gt currentPrice sma then
        ''Price is above 20-day average, indicating short-term strength.''
      else ''Price is below 20-day average, suggesting short-term weakness.'')"

definition undefined_read :: error where
  "undefined_read = TypeError ''Cannot read properties of undefined (reading '4. close')''"

text \<open>
  \<open>dates.map(date => parseFloat(timeSeries[date]['4. close']))\<close>: reading a date that
  the series does not hold throws.
\<close>

fun closes :: "(string \<times> daily) list \<Rightarrow> string list \<Rightarrow> error + jsnum list" where
  "closes timeSeries [] = Inr []"
| "closes timeSeries (d # ds) =
     (case map_of timeSeries d of
        None \<Rightarrow> Inl undefined_read
      | Some e \<Rightarrow>
          (case closes timeSeries ds of
             Inl err \<Rightarrow> Inl err
           | Inr ps \<Rightarrow> Inr (parseFloat (close e) # ps)))"

text \<open>
  The computation on a series that is present (the locals \<open>change\<close> and
  \<open>changePercent\<close> are \<open>change_v\<close> and \<open>changePercent_v\<close> here). With no date
  or one date, \<open>dates[1]\<close> is \<open>undefined\<close>, so \<open>previous\<close> is \<open>undefined\<close> and
  reading its close throws.
\<close>

definition deriveTechnical :: "(string \<times> daily) list \<Rightarrow> error + technical" where
  "deriveTechnical timeSeries =
     (let dates = rev (sort (map fst timeSeries)) in
      case dates of
        latestDate # previousDate # rest \<Rightarrow>
          (case (map_of timeSeries latestDate, map_of timeSeries previousDate) of
             (Some latest, Some previous) \<Rightarrow>
               (let currentPrice = parseFloat (close latest);
                    previousPrice = parseFloat (close previous);
                    change_v = js_sub currentPrice previousPrice;
                    changePercent_v = js_mul (js_div change_v previousPrice) (Fin 100)
                in case closes timeSeries (take 20 dates) of
                     Inl err \<Rightarrow> Inl err
                   | Inr prices \<Rightarrow>
                       (let sma = js_div (foldl js_add (Fin 0) prices)
                                    (Fin (of_nat (length prices)))
                        in Inr \<lparr>price = Val (toFixed2 currentPrice),
                                 change = Val (toFixed2 change_v),
                                 changePercent = Val (toFixed2 changePercent_v),
                                 volume = day_volume latest,
                                 indicators = \<lparr>sma20 = Val (toFixed2 sma),
                                   trend = Some (if js_gt currentPrice sma then ''Bullish''
                                                 else ''Bearish'')\<rparr>,
                                 message = interpretTechnicalAnalysis changePercent_v
                                   currentPrice sma\<rparr>))
           | _ \<Rightarrow> Inl undefined_read)
      | _ \<Rightarrow> Inl undefined_read)"

text \<open>
  The body of the \<open>try\<close> after the two awaits. An \<open>'Error Message'\<close> that is
  present and not empty is thrown.
\<close>

definition technical_body :: "daily_response \<Rightarrow> error + technical" where
  "technical_body data =
     (case ErrorMessage data of
        Some (c # m) \<Rightarrow> Inl (Error (c # m))
      | _ \<Rightarrow>
          (case TimeSeriesDaily data of
             None \<Rightarrow> Inl (Error ''No time series data available'')
           | Some timeSeries \<Rightarrow> deriveTechnical timeSeries))"

text \<open>
  \<open>getTechnicalAnalysis\<close>, from the configured key and what the two awaits
  (\<open>fetch\<close>, \<open>response.json()\<close>) give. Everything thrown in the \<open>try\<close> reaches the
  \<open>catch\<close>, which returns the \<open>N/A\<close> object.
\<close>

definition getTechnicalAnalysis :: "string option \<Rightarrow> daily_response awaited \<Rightarrow> technical" where
  "getTechnicalAnalysis alphaVantageKey fetched =
     (if \<not> truthy_str alphaVantageKey then
        technical_NA ''Alpha Vantage API key not configured''
      else
        (case (case fetched of Rejected e \<Rightarrow> Inl e | Resolved data \<Rightarrow> technical_body data) of
           Inl e \<Rightarrow> technical_NA (''Unable to fetch technical data: '' @ error_msg e)
         | Inr t \<Rightarrow> t))"


text \<open>Sample series: a day with a given close, an answer that holds a series, dates.\<close>

definition day :: "rat \<Rightarrow> daily" where
  "day c = \<lparr>close = Val (Fin c), day_volume = ''1000''\<rparr>"






section \<open>Fundamental signal\<close>

text \<open>
  A value of the provider's overview: \<open>Falsy\<close> is an absent entry, \<open>null\<close> or the
  empty string; \<open>Truthy v\<close> is any other value, read as the field \<open>v\<close>.
\<close>

datatype raw = Falsy | Truthy field

fun or_NA :: "raw \<Rightarrow> field" where
  "or_NA Falsy = NA"
| "or_NA (Truthy v) = v"

fun parse_raw :: "raw \<Rightarrow> jsnum" where
  "parse_raw Falsy = NaN"
| "parse_raw (Truthy v) = parseFloat v"

record overview =
  ov_ErrorMessage :: "string option"
  MarketCapitalization :: raw
  PERatio :: raw
  DividendYield :: raw
  EPS :: raw
  BookValue :: raw

text \<open>A number is truthy unless it is zero or NaN.\<close>

fun truthy_num :: "jsnum \<Rightarrow> bool" where
  "truthy_num (Fin r) = (r \<noteq> 0)"
| "truthy_num NaN = False"
| "truthy_num x = True"

definition interpretFundamentals :: "overview \<Rightarrow> string" where
  "interpretFundamentals data =
     (let pe = parse_raw (PERatio data);
          divYield = parse_raw (DividendYield data);
          m1 = (if truthy_num pe \<and> js_gt pe (Fin 0) then
                  (if js_lt pe (Fin 15) then ''Low P/E ratio suggests potential value. ''
                   else if js_gt pe (Fin 25) then
                     ''High P/E ratio indicates growth expectations or overvaluation. ''
                   else ''Moderate P/E ratio. '')
                else []);
          m2 = (if truthy_num divYield \<and> js_gt divYield (Fin 0) then
                  (if js_gt divYield (Fin 4) then
                     ''High dividend yield attractive for income investors.''
                   else if js_gt divYield (Fin 2) then ''Decent dividend yield.''
                   else ''Low dividend yield.'')
                else [])
      in if m1 @ m2 \<noteq> [] then m1 @ m2 else ''Fundamental data analysis complete.'')"

definition fundamental_body :: "overview \<Rightarrow> error + fundamental" where
  "fundamental_body data =
     (case ov_ErrorMessage data of
        Some (c # m) \<Rightarrow> Inl (Error (c # m))
      | _ \<Rightarrow>
          Inr \<lparr>marketCap = or_NA (MarketCapitalization data), peRatio = or_NA (PERatio data),
               dividendYield = or_NA (DividendYield data), eps = or_NA (EPS data),
               bookValue = or_NA (BookValue data), message = interpretFundamentals data\<rparr>)"

definition getFundamentalAnalysis :: "string option \<Rightarrow> overview awaited \<Rightarrow> fundamental" where
  "getFundamentalAnalysis alphaVantageKey fetched =
     (if \<not> truthy_str alphaVantageKey then
        fundamental_NA ''Alpha Vantage API key not configured''
      else
        (case (case fetched of Rejected e \<Rightarrow> Inl e | Resolved data \<Rightarrow> fundamental_body data) of
           Inl e \<Rightarrow> fundamental_NA (''Unable to fetch fundamental data: '' @ error_msg e)
         | Inr f \<Rightarrow> f))"

section \<open>News\<close>

text \<open>
  An article as the provider sends it; \<open>ra_source\<close> is the name of its source, \<open>None\<close>
  when the article has no \<open>source\<close> object, so that reading \<open>article.source.name\<close> throws.
\<close>

record raw_article =
  ra_title :: "string option"
  ra_description :: "string option"
  ra_url :: string
  ra_publishedAt :: string
  ra_source :: "string option"

record news_response =
  nr_status :: string
  nr_message :: string
  nr_articles :: "raw_article list option"

fun map_articles :: "raw_article list \<Rightarrow> error + article list" where
  "map_articles [] = Inr []"
| "map_articles (a # as) =
     (case ra_source a of
        None \<Rightarrow> Inl (TypeError ''Cannot read properties of undefined (reading 'name')'')
      | Some src \<Rightarrow>
          (case map_articles as of
             Inl err \<Rightarrow> Inl err
           | Inr rest \<Rightarrow>
               Inr (\<lparr>article.title = ra_title a, description = ra_description a,
                      url = ra_url a, publishedAt = ra_publishedAt a, source = src\<rparr> # rest)))"

definition news_body :: "string \<Rightarrow> news_response \<Rightarrow> error + newsData" where
  "news_body symbol data =
     (if nr_status data = ''error'' then Inl (Error (nr_message data))
      else
        (let arts = (case nr_articles data of None \<Rightarrow> [] | Some as \<Rightarrow> as) in
         case map_articles arts of
           Inl err \<Rightarrow> Inl err
         | Inr as \<Rightarrow>
             Inr \<lparr>articles = Some as,
                  summary = ''Found '' @ show_nat (length arts) @
                    '' recent news articles about '' @ symbol\<rparr>))"

definition getNewsAnalysis :: "string option \<Rightarrow> string \<Rightarrow> news_response awaited \<Rightarrow> newsData" where
  "getNewsAnalysis newsApiKey symbol fetched =
     (if \<not> truthy_str newsApiKey then
        \<lparr>articles = Some [],
         summary = ''News API key not configured. Please add NEWS_API_KEY to environment variables.''\<rparr>
      else
        (case (case fetched of Rejected e \<Rightarrow> Inl e | Resolved data \<Rightarrow> news_body symbol data) of
           Inl e \<Rightarrow> \<lparr>articles = Some [], summary = ''Unable to fetch news data: '' @ error_msg e\<rparr>
         | Inr n \<Rightarrow> n))"

section \<open>analyzeAsset and the request handler\<close>

text \<open>
  What a request meets outside the program: the two configured keys and, for each
  symbol, what awaiting each provider gives.
\<close>

record env =
  ALPHA_VANTAGE_API_KEY :: "string option"
  NEWS_API_KEY :: "string option"
  fetch_daily :: "string \<Rightarrow> daily_response awaited"
  fetch_overview :: "string \<Rightarrow> overview awaited"
  fetch_news :: "string \<Rightarrow> news_response awaited"

text \<open>
  The analysis object without its \<open>timestamp\<close> and its \<open>summary\<close>: \<open>generateSummary\<close>
  concatenates text from fields that are present in every analysis and throws nothing.
\<close>

record analysis =
  an_symbol :: string
  an_technical :: technical
  an_fundamental :: fundamental
  an_sentiment :: sentiment
  an_news :: newsData
  an_recommendation :: recommendation

definition analyzeAsset :: "env \<Rightarrow> string \<Rightarrow> analysis" where
  "analyzeAsset w symbol =
     (let technicalData = getTechnicalAnalysis (ALPHA_VANTAGE_API_KEY w) (fetch_daily w symbol);
          fundamentalData =
            getFundamentalAnalysis (ALPHA_VANTAGE_API_KEY w) (fetch_overview w symbol);
          newsData = getNewsAnalysis (NEWS_API_KEY w) symbol (fetch_news w symbol)
      in \<lparr>an_symbol = symbol, an_technical = technicalData, an_fundamental = fundamentalData,
          an_sentiment = getSentimentFromNews newsData, an_news = newsData,
          an_recommendation =
            generateRecommendation technicalData fundamentalData
              (getSentimentFromNews newsData)\<rparr>)"

text \<open>A value of the request's JSON body; \<open>Object\<close> is any object or array.\<close>

datatype jsvalue = Undefined | Null | is_Str: Str string | Num jsnum | Boolean bool | Object

fun truthy :: "jsvalue \<Rightarrow> bool" where
  "truthy Undefined = False"
| "truthy Null = False"
| "truthy (Str s) = (s \<noteq> [])"
| "truthy (Num x) = truthy_num x"
| "truthy (Boolean b) = b"
| "truthy Object = True"

record body =
  symbol :: jsvalue
  query :: jsvalue

record request =
  req_method :: string
  req_body :: "body option"

datatype payload = ErrorJson string | AnalysisJson analysis

datatype response = End nat | Json nat payload

text \<open>
  The \<open>try\<close> block of the handler. Destructuring a body that is absent throws, and so
  does \<open>symbol.toUpperCase()\<close> on a value that is no string.
\<close>

definition handler_try :: "env \<Rightarrow> body option \<Rightarrow> error + response" where
  "handler_try w b =
     (case b of
        None \<Rightarrow> Inl (TypeError ''Cannot destructure property 'symbol' of 'req.body' as it is undefined.'')
      | Some bd \<Rightarrow>
          if \<not> truthy (symbol bd) then Inr (Json 400 (ErrorJson ''Symbol is required''))
          else
            (case symbol bd of
               Str s \<Rightarrow> Inr (Json 200 (AnalysisJson (analyzeAsset w (toUpperCase s))))
             | _ \<Rightarrow> Inl (TypeError ''symbol.toUpperCase is not a function'')))"

definition handler :: "env \<Rightarrow> request \<Rightarrow> response" where
  "handler w req =
     (if req_method req = ''OPTIONS'' then End 200
      else if req_method req \<noteq> ''POST'' then Json 405 (ErrorJson ''Method not allowed'')
      else
        (case handler_try w (req_body req) of
           Inl e \<Rightarrow> Json 500 (ErrorJson ''Analysis failed'')
         | Inr r \<Rightarrow> r))"

text \<open>The response carries an error payload.\<close>

fun is_error :: "response \<Rightarrow> bool" where
  "is_error (Json st (ErrorJson m)) = True"
| "is_error r = False"

text \<open>A sample environment: no key is configured and every fetch fails.\<close>

definition offline :: env where
  "offline =
     \<lparr>ALPHA_VANTAGE_API_KEY = None, NEWS_API_KEY = None,
      fetch_daily = (\<lambda>s. Rejected (TypeError ''fetch failed'')),
      fetch_overview = (\<lambda>s. Rejected (TypeError ''fetch failed'')),
      fetch_news = (\<lambda>s. Rejected (TypeError ''fetch failed''))\<rparr>"

definition post :: "jsvalue \<Rightarrow> request" where
  "post v = \<lparr>req_method = ''POST'', req_body = Some \<lparr>symbol = v, query = Undefined\<rparr>\<rparr>"

section \<open>The failures of a signal-derivation step\<close>

text \<open>
  The four kinds of failure that the specification names, for each of the three steps:
  the credential is missing; the fetch fails; the provider sends an explicit error; the
  data is unavailable (for the technical step: no series, or fewer than two days).
\<close>

definition technical_fails :: "string option \<Rightarrow> daily_response awaited \<Rightarrow> bool" where
  "technical_fails key fetched =
     (\<not> truthy_str key \<or>
      (case fetched of
         Rejected e \<Rightarrow> True
       | Resolved data \<Rightarrow>
           truthy_str (ErrorMessage data) \<or>
           (case TimeSeriesDaily data of None \<Rightarrow> True | Some ts \<Rightarrow> length ts < 2)))"

definition fundamental_fails :: "string option \<Rightarrow> overview awaited \<Rightarrow> bool" where
  "fundamental_fails key fetched =
     (\<not> truthy_str key \<or>
      (case fetched of
         Rejected e \<Rightarrow> True
       | Resolved data \<Rightarrow> truthy_str (ov_ErrorMessage data)))"

definition news_fails :: "string option \<Rightarrow> news_response awaited \<Rightarrow> bool" where
  "news_fails key fetched =
     (\<not> truthy_str key \<or>
      (case fetched of
         Rejected e \<Rightarrow> True
       | Resolved data \<Rightarrow> nr_status data = ''error''))"

section \<open>Technical signal derivation (global quote variant)\<close>

text \<open>
  The variant of \<open>getTechnicalAnalysis\<close> that asks the provider for \<open>GLOBAL_QUOTE\<close>.
  The answer's \<open>Information\<close> text and its \<open>'Global Quote'\<close> object (an association
  list of its entries) may each be absent.
\<close>

record quote_data =
  Information :: "string option"
  GlobalQuote :: "(string \<times> string) list option"

record quote_response =
  ok :: bool
  status :: nat
  json :: "quote_data awaited"

definition demo_data :: technical where
  "demo_data =
     \<lparr>price = Val (Fin (23214 / 100)), change = Val (Fin (- (42 / 100))),
      changePercent = Val (Fin (- (18 / 100))), volume = ''39418437'',
      indicators = \<lparr>sma20 = Val (Fin (22576 / 100)), trend = Some ''Bullish''\<rparr>,
      message = ''Demo data - API rate limit reached''\<rparr>"

text \<open>\<open>data.Information && data.Information.includes('rate limit')\<close>.\<close>

definition rate_limited :: "quote_data \<Rightarrow> bool" where
  "rate_limited data =
     (truthy_str (Information data) \<and>
      (case Information data of Some i \<Rightarrow> str_includes i ''rate limit'' | None \<Rightarrow> False))"

text \<open>
  After the quote is found present, the source evaluates \<open>Object.keys(timeSeries)\<close>.
  No \<open>timeSeries\<close> is declared in this function or in its module, so the evaluation
  throws a reference error; the statements after it are never reached.
\<close>

definition quote_body :: "quote_data \<Rightarrow> error + technical" where
  "quote_body data =
     (if rate_limited data then Inr demo_data
      else
        (case GlobalQuote data of
           None \<Rightarrow> Inl (Error ''No quote data available'')
         | Some quote \<Rightarrow>
             if length quote = 0 then Inl (Error ''No quote data available'')
             else Inl (ReferenceError ''timeSeries is not defined'')))"

definition getTechnicalAnalysis_quote ::
  "string option \<Rightarrow> quote_response awaited \<Rightarrow> technical" where
  "getTechnicalAnalysis_quote apiKey fetched =
     (case
        (if \<not> truthy_str apiKey then Inl (Error ''Alpha Vantage API key not configured'')
         else
           (case fetched of
              Rejected e \<Rightarrow> Inl e
            | Resolved response \<Rightarrow>
                if \<not> ok response then
                  Inl (Error (''Alpha Vantage API error: '' @ show_nat (status response)))
                else
                  (case json response of
                     Rejected e \<Rightarrow> Inl e
                   | Resolved data \<Rightarrow> quote_body data)))
      of
        Inl e \<Rightarrow> technical_NA (''Unable to fetch technical data: '' @ error_msg e)
      | Inr t \<Rightarrow> t)"

text \<open>Sample answers of the provider: a successful response, and a quote of three entries.\<close>

definition quoted :: "quote_data \<Rightarrow> quote_response awaited" where
  "quoted data = Resolved \<lparr>ok = True, status = 200, json = Resolved data\<rparr>"

definition apple_quote :: quote_data where
  "apple_quote =
     \<lparr>Information = None,
      GlobalQuote = Some [(''01. symbol'', ''AAPL''), (''05. price'', ''232.1400''),
        (''08. previous close'', ''232.5600'')]\<rparr>"

section \<open>Facts about the scoring blocks\<close>

lemma generateRecommendation_score:
  "recommendation.score (generateRecommendation t f s) = acc_score (accumulate t f s)"
  by (simp add: generateRecommendation_def Let_def split: prod.split)

lemma generateRecommendation_action:
  "action (generateRecommendation t f s) = fst (snd (classify (acc_score (accumulate t f s))))"
  by (simp add: generateRecommendation_def Let_def split: prod.split)

lemma generateRecommendation_confidence:
  "confidence (generateRecommendation t f s) = snd (snd (classify (acc_score (accumulate t f s))))"
  by (simp add: generateRecommendation_def Let_def split: prod.split)

lemma generateRecommendation_riskLevel:
  "riskLevel (generateRecommendation t f s) = assess_risk (acc_riskFactors (accumulate t f s))"
  by (simp add: generateRecommendation_def Let_def split: prod.split)

lemma generateRecommendation_riskFactors:
  "riskFactors (generateRecommendation t f s) = take 3 (acc_riskFactors (accumulate t f s))"
  by (simp add: generateRecommendation_def Let_def split: prod.split)

lemma momentum_scoring_bounds:
  "acc_score a - 2 \<le> acc_score (momentum_scoring cp a) \<and>
   acc_score (momentum_scoring cp a) \<le> acc_score a + 2"
  by (simp add: momentum_scoring_def bump_def)

lemma trend_scoring_bounds:
  "acc_score a - 1 \<le> acc_score (trend_scoring p m a) \<and>
   acc_score (trend_scoring p m a) \<le> acc_score a + 1"
  by (simp add: trend_scoring_def bump_def)

lemma technical_scoring_bounds:
  "acc_score a - 3 \<le> acc_score (technical_scoring t a) \<and>
   acc_score (technical_scoring t a) \<le> acc_score a + 3"
  using trend_scoring_bounds [of "momentum_scoring (parseFloat (changePercent t)) a"
      "parseFloat (price t)" "parseFloat (sma20 (indicators t))"]
    momentum_scoring_bounds [of a "parseFloat (changePercent t)"]
  by (simp add: technical_scoring_def)

lemma pe_scoring_bounds:
  "acc_score a - 1 \<le> acc_score (pe_scoring f a) \<and>
   acc_score (pe_scoring f a) \<le> acc_score a + 2"
  by (simp add: pe_scoring_def bump_def Let_def)

lemma dividend_scoring_bounds:
  "acc_score a \<le> acc_score (dividend_scoring f a) \<and>
   acc_score (dividend_scoring f a) \<le> acc_score a + 1"
  by (simp add: dividend_scoring_def bump_def)

lemma sentiment_scoring_bounds:
  "acc_score a - 1 \<le> acc_score (sentiment_scoring s a) \<and>
   acc_score (sentiment_scoring s a) \<le> acc_score a + 1"
  by (simp add: sentiment_scoring_def bump_def)

lemma technical_scoring_NA: "price t = NA \<Longrightarrow> technical_scoring t a = a"
  by (simp add: technical_scoring_def)

lemma pe_scoring_NA: "peRatio f = NA \<Longrightarrow> pe_scoring f a = a"
  by (simp add: pe_scoring_def)

lemma dividend_scoring_NA: "dividendYield f = NA \<Longrightarrow> dividend_scoring f a = a"
  by (simp add: dividend_scoring_def)

lemma sentiment_scoring_NA:
  "sentiment.score s = NA \<or> sentiment.score s = Val (Fin 0) \<Longrightarrow> sentiment_scoring s a = a"
  by (auto simp add: sentiment_scoring_def js_lt_def)

lemma classify_range:
  "fst (classify sc) \<in> {''BUY'', ''HOLD'', ''SELL''} \<and>
   snd (snd (classify sc)) \<in> {''High'', ''Medium''}"
  by (simp add: classify_def)

lemma assess_risk_range: "assess_risk rf \<in> {''Low'', ''Medium'', ''High''}"
  by (simp add: assess_risk_def)

lemma generateRecommendation_recommendation:
  "recommendation (generateRecommendation t f s) = fst (classify (acc_score (accumulate t f s)))"
  by (simp add: generateRecommendation_def Let_def split: prod.split)

lemma generateRecommendation_reasons:
  "reasons (generateRecommendation t f s) = take 4 (acc_reasons (accumulate t f s))"
  by (simp add: generateRecommendation_def Let_def split: prod.split)

lemma generateRecommendation_complete:
  "recommendation (generateRecommendation t f s) \<in> {''BUY'', ''HOLD'', ''SELL''} \<and>
   confidence (generateRecommendation t f s) \<in> {''High'', ''Medium''} \<and>
   riskLevel (generateRecommendation t f s) \<in> {''Low'', ''Medium'', ''High''} \<and>
   length (reasons (generateRecommendation t f s)) \<le> 4 \<and>
   length (riskFactors (generateRecommendation t f s)) \<le> 3"
  unfolding generateRecommendation_recommendation generateRecommendation_confidence
    generateRecommendation_riskLevel generateRecommendation_reasons
    generateRecommendation_riskFactors
  using classify_range [of "acc_score (accumulate t f s)"]
    assess_risk_range [of "acc_riskFactors (accumulate t f s)"]
  by simp

lemma score_without_technical:
  assumes "price t = NA"
  shows "- 2 \<le> acc_score (accumulate t f s) \<and> acc_score (accumulate t f s) \<le> 4"
proof -
  let ?a1 = "pe_scoring f acc0"
  let ?a2 = "dividend_scoring f ?a1"
  have "acc_score acc0 = 0" by (simp add: acc0_def)
  with pe_scoring_bounds [of acc0 f] dividend_scoring_bounds [of ?a1 f]
    sentiment_scoring_bounds [of ?a2 s]
  show ?thesis using assms by (simp add: accumulate_def technical_scoring_NA)
qed

lemma score_without_fundamental:
  assumes "peRatio f = NA" and "dividendYield f = NA"
  shows "- 4 \<le> acc_score (accumulate t f s) \<and> acc_score (accumulate t f s) \<le> 4"
proof -
  let ?a1 = "technical_scoring t acc0"
  have "acc_score acc0 = 0" by (simp add: acc0_def)
  with technical_scoring_bounds [of acc0 t] sentiment_scoring_bounds [of ?a1 s]
  show ?thesis using assms by (simp add: accumulate_def pe_scoring_NA dividend_scoring_NA)
qed

lemma score_without_sentiment:
  assumes "sentiment.score s = NA \<or> sentiment.score s = Val (Fin 0)"
  shows "- 4 \<le> acc_score (accumulate t f s) \<and> acc_score (accumulate t f s) \<le> 6"
proof -
  let ?a1 = "technical_scoring t acc0"
  let ?a2 = "pe_scoring f ?a1"
  have "acc_score acc0 = 0" by (simp add: acc0_def)
  with technical_scoring_bounds [of acc0 t] pe_scoring_bounds [of ?a1 f]
    dividend_scoring_bounds [of ?a2 f]
  show ?thesis using assms by (simp add: accumulate_def sentiment_scoring_NA)
qed

lemma score_range:
  "- 5 \<le> acc_score (accumulate t f s) \<and> acc_score (accumulate t f s) \<le> 7"
proof -
  let ?a1 = "technical_scoring t acc0"
  let ?a2 = "pe_scoring f ?a1"
  let ?a3 = "dividend_scoring f ?a2"
  have "acc_score acc0 = 0" by (simp add: acc0_def)
  with technical_scoring_bounds [of acc0 t] pe_scoring_bounds [of ?a1 f]
    dividend_scoring_bounds [of ?a2 f] sentiment_scoring_bounds [of ?a3 s]
  show ?thesis by (simp add: accumulate_def)
qed

lemma momentum_scoring_risks:
  "length (acc_riskFactors (momentum_scoring cp a)) \<le> length (acc_riskFactors a) + 1"
  by (simp add: momentum_scoring_def bump_def)

lemma trend_scoring_risks:
  "length (acc_riskFactors (trend_scoring p m a)) \<le> length (acc_riskFactors a) + 1"
  by (simp add: trend_scoring_def bump_def)

lemma technical_scoring_risks:
  "length (acc_riskFactors (technical_scoring t a)) \<le> length (acc_riskFactors a) + 2"
  using trend_scoring_risks [of "parseFloat (price t)" "parseFloat (sma20 (indicators t))"
      "momentum_scoring (parseFloat (changePercent t)) a"]
    momentum_scoring_risks [of "parseFloat (changePercent t)" a]
  by (simp add: technical_scoring_def)

lemma pe_scoring_risks:
  "length (acc_riskFactors (pe_scoring f a)) \<le> length (acc_riskFactors a) + 1"
  by (simp add: pe_scoring_def bump_def Let_def)

lemma dividend_scoring_risks:
  "acc_riskFactors (dividend_scoring f a) = acc_riskFactors a"
  by (simp add: dividend_scoring_def bump_def)

lemma sentiment_scoring_risks:
  "length (acc_riskFactors (sentiment_scoring s a)) \<le> length (acc_riskFactors a) + 1"
  by (simp add: sentiment_scoring_def bump_def)

lemma accumulate_riskFactors_le_4: "length (acc_riskFactors (accumulate t f s)) \<le> 4"
proof -
  let ?a1 = "technical_scoring t acc0"
  let ?a2 = "pe_scoring f ?a1"
  let ?a3 = "dividend_scoring f ?a2"
  have "length (acc_riskFactors acc0) = 0" by (simp add: acc0_def)
  with technical_scoring_risks [of t acc0] pe_scoring_risks [of f ?a1]
    dividend_scoring_risks [of f ?a2] sentiment_scoring_risks [of s ?a3]
  show ?thesis by (simp add: accumulate_def)
qed

section \<open>Score thresholds\<close>

lemma sample_score_3:
  "recommendation.score
     (generateRecommendation (tech 105 4 100) (fundamental_NA []) (sent (Val (Fin 0)))) = 3"
  by code_simp

lemma sample_score_1:
  "recommendation.score
     (generateRecommendation (tech 100 1 100) (fundamental_NA []) (sent (Val (Fin 0)))) = 1"
  by code_simp

lemma sample_score_minus_1:
  "recommendation.score
     (generateRecommendation (tech 100 (- 1) 100) (fundamental_NA []) (sent (Val (Fin 0)))) = - 1"
  by code_simp

lemma sample_score_minus_3:
  "recommendation.score
     (generateRecommendation (tech 90 (- 4) 100) (fundamental_NA []) (sent (Val (Fin 0)))) = - 3"
  by code_simp

lemma sample_score_minus_4:
  "recommendation.score
     (generateRecommendation (tech 90 (- 4) 100) (fundamental_NA [])
        (sent (Val (Fin (- (6 / 10)))))) = - 4"
  by code_simp

text \<open>
  C1. Whatever the three signals, the action and confidence of the recommendation follow
  from its total score by the five bands: at least 3 gives Strong Buy with High
  confidence; from 1 up to (not including) 3, Buy with Medium; from -1 up to 1, Hold with
  Medium; from -3 up to -1, Sell with Medium; below -3, Strong Sell with High. The
  boundary scores 3, 1, -1 and -3 belong to the band they open.
\<close>

theorem score_to_action:
  "let r = generateRecommendation t f s; sc = recommendation.score r in
     (3 \<le> sc \<longrightarrow> action r = StrongBuy \<and> confidence r = ''High'') \<and>
     (1 \<le> sc \<and> sc < 3 \<longrightarrow> action r = Buy \<and> confidence r = ''Medium'') \<and>
     (- 1 \<le> sc \<and> sc < 1 \<longrightarrow> action r = Hold \<and> confidence r = ''Medium'') \<and>
     (- 3 \<le> sc \<and> sc < - 1 \<longrightarrow> action r = Sell \<and> confidence r = ''Medium'') \<and>
     (sc < - 3 \<longrightarrow> action r = StrongSell \<and> confidence r = ''High'')"
  unfolding Let_def generateRecommendation_score generateRecommendation_action
    generateRecommendation_confidence
  by (simp add: classify_def)

text \<open>
  The bands at signals whose scores are 3, 1, -1, -3 (the four boundaries) and -4.
\<close>

theorem score_to_action_witness:
  "(let r = generateRecommendation (tech 105 4 100) (fundamental_NA []) (sent (Val (Fin 0)))
    in recommendation.score r = 3 \<and> action r = StrongBuy \<and> confidence r = ''High'') \<and>
   (let r = generateRecommendation (tech 100 1 100) (fundamental_NA []) (sent (Val (Fin 0)))
    in recommendation.score r = 1 \<and> action r = Buy \<and> confidence r = ''Medium'') \<and>
   (let r = generateRecommendation (tech 100 (- 1) 100) (fundamental_NA []) (sent (Val (Fin 0)))
    in recommendation.score r = - 1 \<and> action r = Hold \<and> confidence r = ''Medium'') \<and>
   (let r = generateRecommendation (tech 90 (- 4) 100) (fundamental_NA []) (sent (Val (Fin 0)))
    in recommendation.score r = - 3 \<and> action r = Sell \<and> confidence r = ''Medium'') \<and>
   (let r = generateRecommendation (tech 90 (- 4) 100) (fundamental_NA [])
              (sent (Val (Fin (- (6 / 10)))))
    in recommendation.score r = - 4 \<and> action r = StrongSell \<and> confidence r = ''High'')"
  using
    score_to_action [of "tech 105 4 100" "fundamental_NA []" "sent (Val (Fin 0))"]
    score_to_action [of "tech 100 1 100" "fundamental_NA []" "sent (Val (Fin 0))"]
    score_to_action [of "tech 100 (- 1) 100" "fundamental_NA []" "sent (Val (Fin 0))"]
    score_to_action [of "tech 90 (- 4) 100" "fundamental_NA []" "sent (Val (Fin 0))"]
    score_to_action [of "tech 90 (- 4) 100" "fundamental_NA []" "sent (Val (Fin (- (6 / 10))))"]
  unfolding Let_def sample_score_3 sample_score_1 sample_score_minus_1 sample_score_minus_3
    sample_score_minus_4
  by simp

section \<open>Missing signals\<close>

text \<open>
  C2. \<open>generateRecommendation\<close> is a total function of three signal objects: it reads
  fields, parses and compares numbers, and none of these throws. When the technical
  signal is the \<open>N/A\<close> object the technical block is skipped, and the state after the
  four blocks is the state that the fundamental and sentiment blocks alone produce; when
  both fundamental fields are \<open>'N/A'\<close> the two fundamental blocks are skipped; when the
  sentiment score is \<open>'N/A'\<close>, or the 0 that \<open>getSentimentFromNews\<close> gives without
  news, neither sentiment branch is taken. A skipped block adds nothing to the score, no
  reason and no risk factor. The score then lies in the narrower range that the remaining
  blocks can reach (the full range is -5 to 7), and the recommendation is complete: score,
  one of the three recommendations, one of the two confidences, one of the three risk
  levels, at most four reasons and at most three risk factors.
\<close>

theorem missing_signal_skipped:
  "let r = generateRecommendation t f s in
     (price t = NA \<longrightarrow>
        accumulate t f s = sentiment_scoring s (dividend_scoring f (pe_scoring f acc0)) \<and>
        - 2 \<le> recommendation.score r \<and> recommendation.score r \<le> 4) \<and>
     (peRatio f = NA \<and> dividendYield f = NA \<longrightarrow>
        accumulate t f s = sentiment_scoring s (technical_scoring t acc0) \<and>
        - 4 \<le> recommendation.score r \<and> recommendation.score r \<le> 4) \<and>
     (sentiment.score s = NA \<or> sentiment.score s = Val (Fin 0) \<longrightarrow>
        accumulate t f s = dividend_scoring f (pe_scoring f (technical_scoring t acc0)) \<and>
        - 4 \<le> recommendation.score r \<and> recommendation.score r \<le> 6) \<and>
     recommendation.score r = acc_score (accumulate t f s) \<and>
     recommendation r \<in> {''BUY'', ''HOLD'', ''SELL''} \<and>
     confidence r \<in> {''High'', ''Medium''} \<and>
     riskLevel r \<in> {''Low'', ''Medium'', ''High''} \<and>
     reasons r = take 4 (acc_reasons (accumulate t f s)) \<and>
     riskFactors r = take 3 (acc_riskFactors (accumulate t f s))"
proof -
  have tech: "price t = NA \<Longrightarrow>
      accumulate t f s = sentiment_scoring s (dividend_scoring f (pe_scoring f acc0))"
    by (simp add: accumulate_def technical_scoring_NA)
  have fund: "peRatio f = NA \<Longrightarrow> dividendYield f = NA \<Longrightarrow>
      accumulate t f s = sentiment_scoring s (technical_scoring t acc0)"
    by (simp add: accumulate_def pe_scoring_NA dividend_scoring_NA)
  have sent: "sentiment.score s = NA \<or> sentiment.score s = Val (Fin 0) \<Longrightarrow>
      accumulate t f s = dividend_scoring f (pe_scoring f (technical_scoring t acc0))"
    by (simp add: accumulate_def sentiment_scoring_NA)
  show ?thesis
    unfolding Let_def generateRecommendation_score
    using tech fund sent score_without_technical [of t f s]
      score_without_fundamental [of f t s] score_without_sentiment [of s t f]
      generateRecommendation_complete [of t f s]
    by (simp add: generateRecommendation_reasons generateRecommendation_riskFactors)
qed

lemma sample_without_technical:
  "recommendation.score
     (generateRecommendation (technical_NA ''Unable to fetch technical data: fetch failed'')
        (fund (Val (Fin 12)) (Val (Fin 4))) (sent (Val (Fin (6 / 10))))) = 4"
  by code_simp

lemma sample_without_fundamental:
  "recommendation.score
     (generateRecommendation (tech 105 4 100)
        (fundamental_NA ''Unable to fetch fundamental data: fetch failed'')
        (sent (Val (Fin (6 / 10))))) = 4"
  by code_simp

lemma sample_without_sentiment:
  "recommendation.score
     (generateRecommendation (tech 105 4 100) (fund (Val (Fin 12)) (Val (Fin 4)))
        (getSentimentFromNews \<lparr>articles = Some [], summary = []\<rparr>)) = 6 \<and>
   recommendation.score
     (generateRecommendation (tech 105 4 100) (fund (Val (Fin 12)) (Val (Fin 4)))
        (sent NA)) = 6"
  by code_simp

text \<open>
  Each of the three signals missing in turn, the other two as in the worked example with
  a dividend yield of 4.
\<close>

theorem missing_signal_skipped_witness:
  "(accumulate (technical_NA ''Unable to fetch technical data: fetch failed'')
      (fund (Val (Fin 12)) (Val (Fin 4))) (sent (Val (Fin (6 / 10)))) =
    sentiment_scoring (sent (Val (Fin (6 / 10))))
      (dividend_scoring (fund (Val (Fin 12)) (Val (Fin 4)))
        (pe_scoring (fund (Val (Fin 12)) (Val (Fin 4))) acc0)) \<and>
    recommendation.score
      (generateRecommendation (technical_NA ''Unable to fetch technical data: fetch failed'')
        (fund (Val (Fin 12)) (Val (Fin 4))) (sent (Val (Fin (6 / 10))))) = 4) \<and>
   (accumulate (tech 105 4 100)
      (fundamental_NA ''Unable to fetch fundamental data: fetch failed'')
      (sent (Val (Fin (6 / 10)))) =
    sentiment_scoring (sent (Val (Fin (6 / 10)))) (technical_scoring (tech 105 4 100) acc0) \<and>
    recommendation.score
      (generateRecommendation (tech 105 4 100)
        (fundamental_NA ''Unable to fetch fundamental data: fetch failed'')
        (sent (Val (Fin (6 / 10))))) = 4) \<and>
   (accumulate (tech 105 4 100) (fund (Val (Fin 12)) (Val (Fin 4)))
      (getSentimentFromNews \<lparr>articles = Some [], summary = []\<rparr>) =
    dividend_scoring (fund (Val (Fin 12)) (Val (Fin 4)))
      (pe_scoring (fund (Val (Fin 12)) (Val (Fin 4))) (technical_scoring (tech 105 4 100) acc0)) \<and>
    recommendation.score
      (generateRecommendation (tech 105 4 100) (fund (Val (Fin 12)) (Val (Fin 4)))
        (getSentimentFromNews \<lparr>articles = Some [], summary = []\<rparr>)) = 6)"
proof -
  have t: "price (technical_NA ''Unable to fetch technical data: fetch failed'') = NA"
    by (simp add: technical_NA_def)
  have f: "peRatio (fundamental_NA ''Unable to fetch fundamental data: fetch failed'') = NA \<and>
      dividendYield (fundamental_NA ''Unable to fetch fundamental data: fetch failed'') = NA"
    by (simp add: fundamental_NA_def)
  have s: "sentiment.score (getSentimentFromNews \<lparr>articles = Some [], summary = []\<rparr>) =
      Val (Fin 0)"
    by (simp add: getSentimentFromNews_def)
  from t f s
    missing_signal_skipped [of "technical_NA ''Unable to fetch technical data: fetch failed''"
      "fund (Val (Fin 12)) (Val (Fin 4))" "sent (Val (Fin (6 / 10)))"]
    missing_signal_skipped [of "tech 105 4 100"
      "fundamental_NA ''Unable to fetch fundamental data: fetch failed''"
      "sent (Val (Fin (6 / 10)))"]
    missing_signal_skipped [of "tech 105 4 100" "fund (Val (Fin 12)) (Val (Fin 4))"
      "getSentimentFromNews \<lparr>articles = Some [], summary = []\<rparr>"]
    sample_without_technical sample_without_fundamental sample_without_sentiment
  show ?thesis
    unfolding Let_def by simp
qed

section \<open>The worked example\<close>

text \<open>
  C3. For a technical signal with price 105, percent change 4 and 20-day average 100, a
  fundamental signal with P/E ratio 12 and no dividend yield, and a sentiment score of
  0.6, the blocks contribute 2 (momentum), 1 (trend), 2 (P/E), 0 (dividend) and 1
  (sentiment); the recommendation has score 6, action Strong Buy, confidence High, no
  risk factor and risk level Low. The dividend yield is absent (\<open>Val NaN\<close>); with the
  yield \<open>'N/A'\<close> the recommendation is the same.
\<close>

theorem worked_example:
  "acc_score (momentum_scoring (Fin 4) acc0) = 2 \<and>
   acc_score (trend_scoring (Fin 105) (Fin 100) acc0) = 1 \<and>
   acc_score (pe_scoring (fund (Val (Fin 12)) (Val NaN)) acc0) = 2 \<and>
   acc_score (dividend_scoring (fund (Val (Fin 12)) (Val NaN)) acc0) = 0 \<and>
   acc_score (sentiment_scoring (sent (Val (Fin (6 / 10)))) acc0) = 1 \<and>
   generateRecommendation (tech 105 4 100) (fund (Val (Fin 12)) (Val NaN))
       (sent (Val (Fin (6 / 10)))) =
     \<lparr>recommendation = ''BUY'', action = StrongBuy, confidence = ''High'', score = 6,
      riskLevel = ''Low'',
      reasons = [''Strong upward momentum (+3%)'', ''Price above 20-day average'',
        ''Attractive P/E ratio (value play)'', ''Positive market sentiment''],
      riskFactors = [],
      message = ''High confidence buy recommendation. Low risk investment with good upside potential.''\<rparr> \<and>
   generateRecommendation (tech 105 4 100) (fund (Val (Fin 12)) NA)
       (sent (Val (Fin (6 / 10)))) =
     generateRecommendation (tech 105 4 100) (fund (Val (Fin 12)) (Val NaN))
       (sent (Val (Fin (6 / 10))))"
  by code_simp

section \<open>Risk level\<close>

text \<open>
  C4. The risk level of a recommendation is a function of the number of risk factors
  accumulated by the four blocks, counted before the list is cut to three entries, and
  of nothing else: none gives Low, one or two give Medium, three or more give High.
\<close>

theorem riskLevel_from_count:
  "riskLevel (generateRecommendation t f s) =
     (let n = length (acc_riskFactors (accumulate t f s)) in
      if n = 0 then ''Low'' else if n \<le> 2 then ''Medium'' else ''High'')"
  unfolding generateRecommendation_riskLevel assess_risk_def Let_def
  by (cases "acc_riskFactors (accumulate t f s)") auto

lemma four_risk_factors:
  "acc_riskFactors
     (accumulate (tech 90 (- 4) 100) (fund (Val (Fin 50)) NA) (sent (Val (Fin (- 1))))) =
     [''Recent sharp decline'', ''Below short-term trend'', ''High valuation risk'',
      ''Poor news sentiment''] \<and>
   riskFactors
     (generateRecommendation (tech 90 (- 4) 100) (fund (Val (Fin 50)) NA)
        (sent (Val (Fin (- 1))))) =
     [''Recent sharp decline'', ''Below short-term trend'', ''High valuation risk''] \<and>
   riskLevel
     (generateRecommendation (tech 90 (- 4) 100) (fund (Val (Fin 50)) NA)
        (sent (Val (Fin (- 1))))) = ''High''"
  by code_simp

section \<open>Sentiment derivation\<close>







text \<open>
  C5 as stated fails: for an empty list of articles the label is not
  \<open>Neutral sentiment in recent news\<close>.
\<close>

theorem no_articles_label_counterexample:
  "sentiment.message (getSentimentFromNews \<lparr>articles = Some [], summary = []\<rparr>) \<noteq>
     ''Neutral sentiment in recent news''"
  by code_simp

text \<open>
  C5, amended. For an empty list of articles \<open>getSentimentFromNews\<close> returns the score
  0 with the label \<open>No news articles available for sentiment analysis\<close>, and no list of
  headlines.
\<close>

theorem no_articles_sentiment:
  "getSentimentFromNews \<lparr>articles = Some [], summary = s\<rparr> =
     \<lparr>sentiment.score = Val (Fin 0),
      message = ''No news articles available for sentiment analysis'', headlines = None\<rparr>"
  by (simp add: getSentimentFromNews_def)

text \<open>
  The label \<open>Neutral sentiment in recent news\<close> belongs to a list that is not empty
  and whose mean score is 0.
\<close>

lemma growth_concern_score: "headline_score ''growth concern'' = 0"
  by code_simp

lemma neutral_label_sample:
  "sentiment.message
     (getSentimentFromNews
        \<lparr>articles = Some [\<lparr>article.title = Some ''growth concern'', description = None,
           url = [], publishedAt = [], source = []\<rparr>], summary = []\<rparr>) =
     ''Neutral sentiment in recent news''"
  by (simp add: getSentimentFromNews_def score_article_def sentiment_label_def
      growth_concern_score)

lemma headline_score_samples:
  "headline_score ''Growth GROWTH growth'' = 1 \<and>
   headline_score ''Stocks upgraded, profits rise'' = 3 \<and>
   headline_score ''Weak demand: shares drop'' = - 2"
  by code_simp


section \<open>Technical signal derivation\<close>
















section \<open>Failures stay inside the signal steps\<close>

lemma truthy_str_iff: "truthy_str x \<longleftrightarrow> (\<exists>c m. x = Some (c # m))"
  by (cases x; cases "the x") auto

lemma deriveTechnical_short: "length ts < 2 \<Longrightarrow> deriveTechnical ts = Inl undefined_read"
proof -
  assume short: "length ts < 2"
  have "length (rev (sort (map fst ts))) = length ts" by simp
  with short have "length (rev (sort (map fst ts))) < 2" by simp
  then consider "rev (sort (map fst ts)) = []" | d where "rev (sort (map fst ts)) = [d]"
    by (cases "rev (sort (map fst ts))"; cases "tl (rev (sort (map fst ts)))") auto
  then show ?thesis
    by cases (simp_all add: deriveTechnical_def)
qed

lemma getTechnicalAnalysis_fails:
  assumes "technical_fails key fetched"
  shows "\<exists>m. getTechnicalAnalysis key fetched = technical_NA m"
proof (cases "truthy_str key")
  case False
  then show ?thesis by (auto simp: getTechnicalAnalysis_def)
next
  case key: True
  show ?thesis
  proof (cases fetched)
    case (Rejected e)
    with key show ?thesis by (auto simp: getTechnicalAnalysis_def)
  next
    case (Resolved data)
    with assms key have
      "truthy_str (ErrorMessage data) \<or>
       (case TimeSeriesDaily data of None \<Rightarrow> True | Some ts \<Rightarrow> length ts < 2)"
      by (simp add: technical_fails_def)
    then have "\<exists>e. technical_body data = Inl e"
      by (auto simp: technical_body_def deriveTechnical_short split: option.splits list.splits)
    with key Resolved show ?thesis by (auto simp: getTechnicalAnalysis_def)
  qed
qed

lemma getFundamentalAnalysis_fails:
  assumes "fundamental_fails key fetched"
  shows "\<exists>m. getFundamentalAnalysis key fetched = fundamental_NA m"
proof (cases "truthy_str key")
  case False
  then show ?thesis by (auto simp: getFundamentalAnalysis_def)
next
  case key: True
  show ?thesis
  proof (cases fetched)
    case (Rejected e)
    with key show ?thesis by (auto simp: getFundamentalAnalysis_def)
  next
    case (Resolved data)
    with assms key have "truthy_str (ov_ErrorMessage data)"
      by (simp add: fundamental_fails_def)
    then obtain c m where "ov_ErrorMessage data = Some (c # m)"
      by (auto simp: truthy_str_iff)
    then have "\<exists>e. fundamental_body data = Inl e"
      by (simp add: fundamental_body_def)
    with key Resolved show ?thesis by (auto simp: getFundamentalAnalysis_def)
  qed
qed

lemma getNewsAnalysis_fails:
  assumes "news_fails key fetched"
  shows "\<exists>m. getNewsAnalysis key sy fetched = \<lparr>articles = Some [], summary = m\<rparr>"
proof (cases "truthy_str key")
  case False
  then show ?thesis by (auto simp: getNewsAnalysis_def)
next
  case key: True
  show ?thesis
  proof (cases fetched)
    case (Rejected e)
    with key show ?thesis by (auto simp: getNewsAnalysis_def)
  next
    case (Resolved data)
    with assms key have "nr_status data = ''error''"
      by (simp add: news_fails_def)
    then have "\<exists>e. news_body sy data = Inl e"
      by (simp add: news_body_def)
    with key Resolved show ?thesis by (auto simp: getNewsAnalysis_def)
  qed
qed

lemma handler_try_cases:
  "handler_try w b =
     (case b of
        None \<Rightarrow> Inl (TypeError ''Cannot destructure property 'symbol' of 'req.body' as it is undefined.'')
      | Some bd \<Rightarrow>
          if \<not> truthy (symbol bd) then Inr (Json 400 (ErrorJson ''Symbol is required''))
          else if is_Str (symbol bd) then
            Inr (Json 200 (AnalysisJson (analyzeAsset w (toUpperCase (case symbol bd of Str s \<Rightarrow> s | _ \<Rightarrow> [])))))
          else Inl (TypeError ''symbol.toUpperCase is not a function''))"
  by (cases b; cases "symbol (the b)") (simp_all add: handler_try_def)

lemma handler_post_error:
  assumes "req_method req = ''POST''"
  shows "is_error (handler w req) \<longleftrightarrow>
     (case req_body req of
        None \<Rightarrow> True
      | Some bd \<Rightarrow> \<not> truthy (symbol bd) \<or> \<not> is_Str (symbol bd))"
  using assms by (simp add: handler_def handler_try_cases split: option.split)

lemma handler_post_string:
  assumes "req_method req = ''POST''" and "req_body req = Some bd" and "symbol bd = Str s"
    and "s \<noteq> []"
  shows "handler w req = Json 200 (AnalysisJson (analyzeAsset w (toUpperCase s)))"
  using assms by (simp add: handler_def handler_try_def)

text \<open>
  C9 as stated fails in its second half: a request whose symbol is present and not
  empty, but is no string (here the number 123), is answered with the error
  \<open>Analysis failed\<close>, since \<open>symbol.toUpperCase()\<close> throws inside the handler's
  \<open>try\<close>.
\<close>

theorem non_string_symbol_counterexample:
  "truthy (Num (Fin 123)) \<and>
   handler offline (post (Num (Fin 123))) = Json 500 (ErrorJson ''Analysis failed'')"
  by code_simp

text \<open>
  C9, amended. Each of the three signal steps turns every failure of the four kinds
  (missing credential, failed fetch, explicit provider error, unavailable data) into its
  own sentinel: the \<open>N/A\<close> technical object, the \<open>N/A\<close> fundamental object, the empty
  article list; nothing is thrown to the caller. A POST request is answered with an
  error exactly when it has no body, or its symbol is absent or empty (falsy), or its
  symbol is not a string.
\<close>

theorem errors_stay_local:
  "(technical_fails akey daily \<longrightarrow>
      (\<exists>m. getTechnicalAnalysis akey daily = technical_NA m)) \<and>
   (fundamental_fails akey ov \<longrightarrow>
      (\<exists>m. getFundamentalAnalysis akey ov = fundamental_NA m)) \<and>
   (news_fails nkey news \<longrightarrow>
      (\<exists>m. getNewsAnalysis nkey sy news = \<lparr>articles = Some [], summary = m\<rparr>)) \<and>
   (req_method req = ''POST'' \<longrightarrow>
      (is_error (handler w req) \<longleftrightarrow>
         (case req_body req of
            None \<Rightarrow> True
          | Some bd \<Rightarrow> \<not> truthy (symbol bd) \<or> \<not> is_Str (symbol bd))))"
  using getTechnicalAnalysis_fails [of akey daily] getFundamentalAnalysis_fails [of akey ov]
    getNewsAnalysis_fails [of nkey news sy] handler_post_error [of req w]
  by blast

lemma offline_analysis:
  "handler offline (post (Str ''aapl'')) = Json 200 (AnalysisJson (analyzeAsset offline ''AAPL''))"
  by code_simp

lemma offline_recommendation:
  "an_technical (analyzeAsset offline ''AAPL'') =
     technical_NA ''Alpha Vantage API key not configured'' \<and>
   an_fundamental (analyzeAsset offline ''AAPL'') =
     fundamental_NA ''Alpha Vantage API key not configured'' \<and>
   action (an_recommendation (analyzeAsset offline ''AAPL'')) = Hold"
  by code_simp

text \<open>
  With every provider failing: the three sentinels, an analysis for the symbol
  \<open>aapl\<close>, and errors for an empty symbol and for a request without a body.
\<close>

theorem errors_stay_local_witness:
  "(\<exists>m. getTechnicalAnalysis (Some ''demo'') (Rejected (TypeError ''fetch failed'')) =
      technical_NA m) \<and>
   (\<exists>m. getFundamentalAnalysis (Some ''demo'') (Rejected (TypeError ''fetch failed'')) =
      fundamental_NA m) \<and>
   (\<exists>m. getNewsAnalysis (Some ''demo'') ''AAPL'' (Rejected (TypeError ''fetch failed'')) =
      \<lparr>articles = Some [], summary = m\<rparr>) \<and>
   \<not> is_error (handler offline (post (Str ''aapl''))) \<and>
   is_error (handler offline (post (Str []))) \<and>
   is_error (handler offline \<lparr>req_method = ''POST'', req_body = None\<rparr>)"
proof -
  have t: "technical_fails (Some ''demo'') (Rejected (TypeError ''fetch failed''))"
    by (simp add: technical_fails_def)
  have f: "fundamental_fails (Some ''demo'') (Rejected (TypeError ''fetch failed''))"
    by (simp add: fundamental_fails_def)
  have n: "news_fails (Some ''demo'') (Rejected (TypeError ''fetch failed''))"
    by (simp add: news_fails_def)
  have p: "req_method (post v) = ''POST''" "req_body (post v) = Some \<lparr>symbol = v, query = Undefined\<rparr>" for v
    by (simp_all add: post_def)
  from t f n p
    errors_stay_local [of "Some ''demo''" "Rejected (TypeError ''fetch failed'')"
      "Rejected (TypeError ''fetch failed'')" "Some ''demo''"
      "Rejected (TypeError ''fetch failed'')" "''AAPL''" "post (Str ''aapl'')" offline]
    errors_stay_local [of "Some ''demo''" "Rejected (TypeError ''fetch failed'')"
      "Rejected (TypeError ''fetch failed'')" "Some ''demo''"
      "Rejected (TypeError ''fetch failed'')" "''AAPL''" "post (Str [])" offline]
    errors_stay_local [of "Some ''demo''" "Rejected (TypeError ''fetch failed'')"
      "Rejected (TypeError ''fetch failed'')" "Some ''demo''"
      "Rejected (TypeError ''fetch failed'')" "''AAPL''"
      "\<lparr>req_method = ''POST'', req_body = None\<rparr>" offline]
  show ?thesis by simp
qed

section \<open>The global quote variant\<close>

lemma quote_body_cases:
  "quote_body data = Inr demo_data \<or> (\<exists>e. quote_body data = Inl e)"
  by (simp add: quote_body_def split: option.split)

lemma quote_all: "getTechnicalAnalysis_quote apiKey fetched = demo_data \<or>
    (\<exists>m. getTechnicalAnalysis_quote apiKey fetched = technical_NA m)"
proof (cases "truthy_str apiKey")
  case False
  then show ?thesis by (auto simp: getTechnicalAnalysis_quote_def)
next
  case key: True
  show ?thesis
  proof (cases fetched)
    case (Rejected e)
    with key show ?thesis by (auto simp: getTechnicalAnalysis_quote_def)
  next
    case (Resolved response)
    show ?thesis
    proof (cases "ok response")
      case False
      with key Resolved show ?thesis by (auto simp: getTechnicalAnalysis_quote_def)
    next
      case ok: True
      show ?thesis
      proof (cases "json response")
        case (Rejected e)
        with key Resolved ok show ?thesis by (auto simp: getTechnicalAnalysis_quote_def)
      next
        case data: (Resolved data)
        from quote_body_cases [of data] key Resolved ok data show ?thesis
          by (auto simp: getTechnicalAnalysis_quote_def)
      qed
    qed
  qed
qed

lemma quote_success:
  assumes "truthy_str apiKey" and "fetched = Resolved response" and "ok response"
    and "json response = Resolved data" and "\<not> rate_limited data"
  shows "\<exists>m. getTechnicalAnalysis_quote apiKey fetched = technical_NA m"
  using assms by (auto simp: getTechnicalAnalysis_quote_def quote_body_def split: option.split)

lemma quote_present:
  assumes "truthy_str apiKey" and "fetched = Resolved response" and "ok response"
    and "json response = Resolved data" and "\<not> rate_limited data"
    and "GlobalQuote data = Some quote" and "quote \<noteq> []"
  shows "getTechnicalAnalysis_quote apiKey fetched =
    technical_NA ''Unable to fetch technical data: timeSeries is not defined''"
  using assms by (simp add: getTechnicalAnalysis_quote_def quote_body_def)

text \<open>
  C10. The global quote variant of \<open>getTechnicalAnalysis\<close> returns either the fixed
  demo object or an \<open>N/A\<close> object, whatever the key and the provider's answer. For a
  successful answer that is not the rate-limit answer it returns an \<open>N/A\<close> object; and
  when the quote is present and not empty, the \<open>N/A\<close> object carries the message of
  the reference error raised by the undeclared \<open>timeSeries\<close>, so that the result never
  depends on the quote.
\<close>

theorem quote_variant_never_derives:
  "(getTechnicalAnalysis_quote apiKey fetched = demo_data \<or>
      (\<exists>m. getTechnicalAnalysis_quote apiKey fetched = technical_NA m)) \<and>
   (truthy_str apiKey \<and> fetched = Resolved response \<and> ok response \<and>
    json response = Resolved data \<and> \<not> rate_limited data \<longrightarrow>
      (\<exists>m. getTechnicalAnalysis_quote apiKey fetched = technical_NA m)) \<and>
   (truthy_str apiKey \<and> fetched = Resolved response \<and> ok response \<and>
    json response = Resolved data \<and> \<not> rate_limited data \<and>
    GlobalQuote data = Some quote \<and> quote \<noteq> [] \<longrightarrow>
      getTechnicalAnalysis_quote apiKey fetched =
        technical_NA ''Unable to fetch technical data: timeSeries is not defined'')"
  using quote_all [of apiKey fetched] quote_success [of apiKey fetched response data]
    quote_present [of apiKey fetched response data quote]
  by blast

theorem quote_variant_never_derives_witness:
  "getTechnicalAnalysis_quote (Some ''demo'') (quoted apple_quote) =
     technical_NA ''Unable to fetch technical data: timeSeries is not defined'' \<and>
   getTechnicalAnalysis_quote (Some ''demo'') (quoted apple_quote) \<noteq> demo_data"
proof -
  have k: "truthy_str (Some ''demo'')" by simp
  have r: "quoted apple_quote = Resolved \<lparr>ok = True, status = 200, json = Resolved apple_quote\<rparr>"
    by (simp add: quoted_def)
  have o: "ok \<lparr>ok = True, status = 200, json = Resolved apple_quote\<rparr>" by simp
  have j: "json \<lparr>ok = True, status = 200, json = Resolved apple_quote\<rparr> = Resolved apple_quote"
    by simp
  have l: "\<not> rate_limited apple_quote" by (simp add: rate_limited_def apple_quote_def)
  have q: "GlobalQuote apple_quote = Some [(''01. symbol'', ''AAPL''), (''05. price'', ''232.1400''),
        (''08. previous close'', ''232.5600'')]" by (simp add: apple_quote_def)
  have d: "technical_NA ''Unable to fetch technical data: timeSeries is not defined'' \<noteq> demo_data"
    by (simp add: technical_NA_def demo_data_def)
  from quote_variant_never_derives [of "Some ''demo''" "quoted apple_quote"
      "\<lparr>ok = True, status = 200, json = Resolved apple_quote\<rparr>" apple_quote
      "[(''01. symbol'', ''AAPL''), (''05. price'', ''232.1400''),
        (''08. previous close'', ''232.5600'')]"] k r o j l q d
  show ?thesis by simp
qed

lemma rate_limit_demo:
  "getTechnicalAnalysis_quote (Some ''demo'')
     (quoted \<lparr>Information = Some ''Our standard API rate limit is 25 requests per day.'',
        GlobalQuote = None\<rparr>) = demo_data"
  by code_simp

end
